theory Spec2Isabelle
  imports Complex_Main
begin

section \<open>Conventions of the embedding\<close>

text \<open>
  The program is a browser script: a set of event handlers over the DOM, the shared
  object \<open>STATE\<close> and \<open>localStorage\<close>. Each handler becomes a function from the
  state before the event to the state after it. What the browser supplies at an event
  (geometry, the validity of a form field, a draw of \<open>Math.random()\<close>, a timestamp) is
  an argument of the handler.

  JavaScript strings are \<open>string\<close>s (lists of characters); finite JavaScript numbers
  are real numbers, and the rounding of IEEE doubles is not modelled. Where the code can
  produce a non-finite number (a division by the scrollable height), the number type
  \<open>jsnum\<close> below carries \<open>Infinity\<close>, \<open>-Infinity\<close> and \<open>NaN\<close> explicitly.
\<close>

subsection \<open>DOMTokenList: the \<open>classList\<close> of an element\<close>

definition classList_add :: "string \<Rightarrow> string list \<Rightarrow> string list" where
  "classList_add c cs = (if c \<in> set cs then cs else cs @ [c])"

definition classList_remove :: "string \<Rightarrow> string list \<Rightarrow> string list" where
  "classList_remove c cs = filter (\<lambda>x. x \<noteq> c) cs"

text \<open>\<open>classList.toggle(c, force)\<close> with the second argument given.\<close>

definition classList_toggle :: "string \<Rightarrow> bool \<Rightarrow> string list \<Rightarrow> string list" where
  "classList_toggle c force cs = (if force then classList_add c cs else classList_remove c cs)"

definition classList_contains :: "string \<Rightarrow> string list \<Rightarrow> bool" where
  "classList_contains c cs = (c \<in> set cs)"

section \<open>Utils.formatPhone\<close>

text \<open>
  \<^verbatim>\<open>phone.replace(/(\d{2})(\d{2})(\d{2})(\d{2})(\d{2})/, '$1 $2 $3 $4 $5')\<close>

  Without the \<open>u\<close> flag \<open>\d\<close> is exactly \<open>[0-9]\<close>. The pattern has no \<open>g\<close> flag, so
  only the leftmost match is replaced: the first position at which ten digits stand in a
  row. The five groups are the five consecutive pairs of those ten digits.
\<close>

definition is_digit :: "char \<Rightarrow> bool" where
  "is_digit c = (c \<in> set ''0123456789'')"

definition digits_at :: "string \<Rightarrow> bool" where
  "digits_at s = (10 \<le> length s \<and> list_all is_digit (take 10 s))"

definition phone_groups :: "string \<Rightarrow> string" where
  "phone_groups d =
     take 2 d @ '' '' @ take 2 (drop 2 d) @ '' '' @ take 2 (drop 4 d) @ '' '' @
     take 2 (drop 6 d) @ '' '' @ take 2 (drop 8 d)"

fun formatPhone :: "string \<Rightarrow> string" where
  "formatPhone [] = []"
| "formatPhone (c # cs) =
     (if digits_at (c # cs) then phone_groups (take 10 (c # cs)) @ drop 10 (c # cs)
      else c # formatPhone cs)"

text \<open>
  The claim's words: the input contains a run of ten consecutive digits when ten digits
  stand at the positions \<open>i, ..., i + 9\<close> for some \<open>i\<close>.
\<close>

definition has_digit_run :: "string \<Rightarrow> bool" where
  "has_digit_run s = (\<exists>i. i + 10 \<le> length s \<and> (\<forall>j<10. is_digit (s ! (i + j))))"

section \<open>AnalyticsManager.logEvent\<close>

text \<open>
  The event object is built from the arguments, \<open>Utils.generateId()\<close> (the clock and a
  random draw) and the clock; the identifier and the timestamp are arguments here. The
  \<open>console.log\<close> of the event writes no state of the program and is left out.
\<close>

record analytics_event =
  ev_id :: string
  ev_name :: string
  ev_data :: string
  ev_timestamp :: string

text \<open>\<open>xs.slice(-n)\<close>: the last \<open>n\<close> elements, all of them when there are fewer.\<close>

definition slice_last :: "nat \<Rightarrow> 'a list \<Rightarrow> 'a list" where
  "slice_last n xs = drop (length xs - n) xs"

definition logEvent :: "analytics_event \<Rightarrow> analytics_event list \<Rightarrow> analytics_event list" where
  "logEvent ev evs =
     (let pushed = evs @ [ev]
      in if length pushed > 100 then slice_last 100 pushed else pushed)"

text \<open>A run of \<open>logEvent\<close> calls, in order, from a given event list.\<close>

fun logEvents :: "analytics_event list \<Rightarrow> analytics_event list \<Rightarrow> analytics_event list" where
  "logEvents [] evs = evs"
| "logEvents (e # es) evs = logEvents es (logEvent e evs)"

section \<open>Numbers that need not be finite\<close>

datatype jsnum = Num real | PosInf | NegInf | NaN

fun is_finite :: "jsnum \<Rightarrow> bool" where
  "is_finite (Num x) = True"
| "is_finite PosInf = False"
| "is_finite NegInf = False"
| "is_finite NaN = False"

text \<open>
  The quotient of two finite numbers. The divisors of the program are differences
  \<open>a - b\<close>, which are \<open>+0\<close> when they vanish, so a division by zero takes the sign of
  the dividend, and \<open>0 / 0\<close> is \<open>NaN\<close>.
\<close>

definition js_div :: "real \<Rightarrow> real \<Rightarrow> jsnum" where
  "js_div a b =
     (if b \<noteq> 0 then Num (a / b)
      else if a = 0 then NaN else if 0 < a then PosInf else NegInf)"

fun js_times :: "jsnum \<Rightarrow> real \<Rightarrow> jsnum" where
  "js_times (Num x) c = Num (x * c)"
| "js_times PosInf c = (if 0 < c then PosInf else if c < 0 then NegInf else NaN)"
| "js_times NegInf c = (if 0 < c then NegInf else if c < 0 then PosInf else NaN)"
| "js_times NaN c = NaN"

text \<open>\<open>Math.round\<close>: the nearest integer, halves upwards; non-finite values are kept.\<close>

fun js_round :: "jsnum \<Rightarrow> jsnum" where
  "js_round (Num x) = Num (of_int \<lfloor>x + 1 / 2\<rfloor>)"
| "js_round v = v"

text \<open>\<open>a || b\<close> on finite numbers: \<open>a\<close> when it is not zero, \<open>b\<close> otherwise.\<close>

definition js_or :: "real \<Rightarrow> real \<Rightarrow> real" where
  "js_or a b = (if a \<noteq> 0 then a else b)"

section \<open>The state of the page\<close>

text \<open>What the browser reports about the scroll position and the viewport at an event.\<close>

record viewport =
  pageYOffset :: real
  body_scrollTop :: real
  root_scrollTop :: real
  root_scrollHeight :: real
  root_clientHeight :: real
  innerHeight :: real

text \<open>
  The progress bar element: the number in the string \<open>scrolled + '%'\<close> assigned to
  \<open>style.width\<close>, and the value given to \<open>aria-valuenow\<close>.
\<close>

record progress_bar =
  pb_width :: jsnum
  pb_valuenow :: jsnum

text \<open>
  An element of the document: its class list, its bounding client rectangle as of the
  last layout, its \<open>data-animate\<close> attribute, and whether the observer of
  \<open>AnimationManager.initIntersectionObserver\<close> still observes it.
\<close>

record element =
  el_classes :: "string list"
  el_top :: real
  el_bottom :: real
  el_animate :: "string option"
  el_observed :: bool

text \<open>The element \<open>#<id>-error\<close> of a form field, when the document has one.\<close>

record error_element =
  err_text :: string
  err_display :: string

record field =
  f_id :: string
  f_value :: string
  f_default :: string
  f_required :: bool
  f_type :: string
  f_classes :: "string list"
  f_error :: "error_element option"

text \<open>The \<open>ValidityState\<close> the browser computes for a field (HTML5 constraint validation).\<close>

record validity_state =
  v_valid :: bool
  v_valueMissing :: bool
  v_typeMismatch :: bool

text \<open>
  The submit button of the contact form: \<open>disabled\<close>, the text of its \<open>.btn-text\<close>
  child and the \<open>display\<close> of its \<open>.btn-loader\<close> child, for the children that exist.
\<close>

record submit_button =
  btn_disabled :: bool
  btn_text :: "string option"
  btn_loader :: "string option"

text \<open>A notification \<open>div\<close> appended to the body: its type and its message.\<close>

record notification =
  n_type :: string
  n_message :: string

record news_button =
  nb_disabled :: bool
  nb_html :: string

record particle =
  p_x :: real
  p_y :: real
  p_vx :: real
  p_vy :: real

record mouse =
  m_x :: real
  m_y :: real
  m_radius :: real

text \<open>
  The whole state: \<open>localStorage\<close>, the four fields of \<open>STATE\<close>, and the parts of the
  DOM and of the manager objects that the handlers below read or write.
\<close>

record app =
  localStorage :: "string \<rightharpoonup> string"
  theme :: string
  scrollPosition :: real
  menuOpen :: bool
  formSubmitting :: bool
  body_classes :: "string list"
  body_overflow :: string
  meta_theme_color :: "string option"
  navbar_classes :: "string list"
  navMenu_classes :: "string list"
  aria_expanded :: string
  progressBar :: "progress_bar option"
  elements :: "element list"
  form_fields :: "field list"
  submitBtn :: submit_button
  success_display :: "string option"
  notifications :: "notification list"
  news_email :: string
  news_email_default :: string
  news_btn :: news_button
  events :: "analytics_event list"
  particles :: "particle list"
  cursor :: mouse
  canvas_width :: real
  canvas_height :: real

section \<open>ThemeManager\<close>

text \<open>
  \<^verbatim>\<open>STATE.theme = localStorage.getItem('theme') || (matchMedia(...).matches ? 'dark' : 'light')\<close>

  \<open>getItem\<close> gives \<open>null\<close> for a missing key; \<open>null\<close> and the empty string are falsy.
\<close>

definition item_truthy :: "string option \<Rightarrow> bool" where
  "item_truthy v = (case v of None \<Rightarrow> False | Some t \<Rightarrow> t \<noteq> [])"

definition initial_theme :: "(string \<rightharpoonup> string) \<Rightarrow> bool \<Rightarrow> string" where
  "initial_theme store prefers_dark =
     (if item_truthy (store ''theme'') then the (store ''theme'')
      else if prefers_dark then ''dark'' else ''light'')"

definition setTheme :: "string \<Rightarrow> app \<Rightarrow> app" where
  "setTheme t s =
     s\<lparr>theme := t,
       body_classes := classList_toggle ''dark-mode'' (t = ''dark'') (body_classes s),
       localStorage := (localStorage s)(''theme'' \<mapsto> t),
       meta_theme_color :=
         (case meta_theme_color s of
            None \<Rightarrow> None
          | Some _ \<Rightarrow> Some (if t = ''dark'' then ''#111827'' else ''#ffffff''))\<rparr>"

text \<open>The \<open>themeChange\<close> event that \<open>toggleTheme\<close> dispatches has no listener.\<close>

definition toggleTheme :: "app \<Rightarrow> app" where
  "toggleTheme s =
     (let newTheme = (if theme s = ''light'' then ''dark'' else ''light'')
      in setTheme newTheme s)"

text \<open>The listener of the \<open>prefers-color-scheme\<close> media query; \<open>matches\<close> is \<open>e.matches\<close>.\<close>

definition onColorSchemeChange :: "bool \<Rightarrow> app \<Rightarrow> app" where
  "onColorSchemeChange matches s =
     (if \<not> item_truthy (localStorage s ''theme'')
      then setTheme (if matches then ''dark'' else ''light'') s
      else s)"

section \<open>NavigationManager\<close>

definition js_bool_string :: "bool \<Rightarrow> string" where
  "js_bool_string b = (if b then ''true'' else ''false'')"

definition toggleMenu :: "app \<Rightarrow> app" where
  "toggleMenu s =
     (let opened = \<not> menuOpen s
      in s\<lparr>menuOpen := opened,
           navMenu_classes := classList_toggle ''active'' opened (navMenu_classes s),
           aria_expanded := js_bool_string opened,
           body_overflow := (if opened then ''hidden'' else [])\<rparr>)"

definition closeMenu :: "app \<Rightarrow> app" where
  "closeMenu s =
     s\<lparr>menuOpen := False,
       navMenu_classes := classList_remove ''active'' (navMenu_classes s),
       aria_expanded := ''false'',
       body_overflow := []\<rparr>"

definition winScroll :: "viewport \<Rightarrow> real" where
  "winScroll vp = js_or (body_scrollTop vp) (root_scrollTop vp)"

definition scrollable_height :: "viewport \<Rightarrow> real" where
  "scrollable_height vp = root_scrollHeight vp - root_clientHeight vp"

text \<open>The constant \<open>scrolled\<close> of \<open>updateProgressBar\<close>.\<close>

definition scrolled :: "viewport \<Rightarrow> jsnum" where
  "scrolled vp = js_times (js_div (winScroll vp) (scrollable_height vp)) 100"

definition updateProgressBar :: "viewport \<Rightarrow> app \<Rightarrow> app" where
  "updateProgressBar vp s =
     (case progressBar s of
        None \<Rightarrow> s
      | Some bar \<Rightarrow>
          s\<lparr>progressBar :=
              Some (bar\<lparr>pb_width := scrolled vp, pb_valuenow := js_round (scrolled vp)\<rparr>)\<rparr>)"

definition updateNavbar :: "real \<Rightarrow> app \<Rightarrow> app" where
  "updateNavbar currentScroll s =
     (if currentScroll > 100 then
        (if currentScroll > scrollPosition s \<and> currentScroll > 200 then
           s\<lparr>navbar_classes := classList_add ''hidden'' (classList_add ''scrolled'' (navbar_classes s)),
             scrollPosition := currentScroll\<rparr>
         else
           s\<lparr>navbar_classes := classList_remove ''hidden'' (classList_add ''scrolled'' (navbar_classes s)),
             scrollPosition := currentScroll\<rparr>)
      else
        s\<lparr>navbar_classes :=
            classList_remove ''hidden'' (classList_remove ''scrolled'' (navbar_classes s)),
          scrollPosition := currentScroll\<rparr>)"

section \<open>AnimationManager: scroll animations and the observer\<close>

text \<open>\<open>Utils.isInViewport(element, offset)\<close>, on the rectangle of the last layout.\<close>

definition isInViewport :: "viewport \<Rightarrow> element \<Rightarrow> real \<Rightarrow> bool" where
  "isInViewport vp el offset =
     (el_top el \<le> js_or (innerHeight vp) (root_clientHeight vp) * (1 - offset) \<and>
      el_bottom el \<ge> 0)"

text \<open>
  \<open>animateOnScroll\<close>, the function that \<open>initScrollAnimations\<close> calls once and registers
  (throttled) as a listener of the window's \<open>scroll\<close> event. The query
  \<open>.scroll-animate\<close> is made anew at every call.
\<close>

definition reveal :: "viewport \<Rightarrow> element \<Rightarrow> element" where
  "reveal vp el =
     (if classList_contains ''scroll-animate'' (el_classes el) \<and> isInViewport vp el 0.2
      then el\<lparr>el_classes := classList_add ''visible'' (el_classes el)\<rparr>
      else el)"

definition animateOnScroll :: "viewport \<Rightarrow> element list \<Rightarrow> element list" where
  "animateOnScroll vp els = map (reveal vp) els"

text \<open>
  A scroll moves the rectangles: the browser's new layout gives every element, by its
  index in the document, a new top and bottom. Nothing else of an element changes.
\<close>

definition relayout :: "(nat \<Rightarrow> real \<times> real) \<Rightarrow> element list \<Rightarrow> element list" where
  "relayout rect els =
     map (\<lambda>(i, el). el\<lparr>el_top := fst (rect i), el_bottom := snd (rect i)\<rparr>)
       (zip [0..<length els] els)"

text \<open>
  \<open>animateElement\<close> adds the two animation classes (an \<open>animationend\<close> listener takes
  them away again later; that event is not modelled). A missing \<open>data-animate\<close> reads
  as \<open>undefined\<close>.
\<close>

definition animateElement :: "element \<Rightarrow> element" where
  "animateElement el =
     (let animation = (case el_animate el of None \<Rightarrow> ''undefined'' | Some a \<Rightarrow> a)
      in el\<lparr>el_classes :=
            classList_add (''animate__'' @ animation)
              (classList_add ''animate__animated'' (el_classes el))\<rparr>)"

text \<open>
  The callback of the Intersection Observer of \<open>initIntersectionObserver\<close>. An entry
  names its target by the index of the element and says whether it intersects; the
  browser delivers entries for observed targets only.
\<close>

fun observerCallback :: "(nat \<times> bool) list \<Rightarrow> element list \<Rightarrow> element list" where
  "observerCallback [] els = els"
| "observerCallback ((i, isIntersecting) # entries) els =
     observerCallback entries
       (if i < length els \<and> el_observed (els ! i) \<and> isIntersecting
        then els[i := (animateElement (els ! i))\<lparr>el_observed := False\<rparr>]
        else els)"

section \<open>ContactFormManager\<close>

definition getValidationMessage :: "(field \<Rightarrow> validity_state) \<Rightarrow> field \<Rightarrow> string" where
  "getValidationMessage validity f =
     (if v_valueMissing (validity f) then ''Ce champ est obligatoire.''
      else if v_typeMismatch (validity f) \<and> f_type f = ''email''
      then ''Veuillez entrer une adresse email valide.''
      else ''Veuillez corriger ce champ.'')"

definition showError :: "field \<Rightarrow> string \<Rightarrow> field" where
  "showError f message =
     f\<lparr>f_classes := classList_add ''error'' (f_classes f),
       f_error :=
         (case f_error f of
            None \<Rightarrow> None
          | Some e \<Rightarrow> Some (e\<lparr>err_text := message, err_display := ''block''\<rparr>))\<rparr>"

definition hideError :: "field \<Rightarrow> field" where
  "hideError f =
     f\<lparr>f_classes := classList_remove ''error'' (f_classes f),
       f_error :=
         (case f_error f of
            None \<Rightarrow> None
          | Some e \<Rightarrow> Some (e\<lparr>err_display := ''none''\<rparr>))\<rparr>"

text \<open>\<open>validateField\<close> returns whether the field is valid, and shows or hides its error.\<close>

definition validateField :: "(field \<Rightarrow> validity_state) \<Rightarrow> field \<Rightarrow> bool \<times> field" where
  "validateField validity f =
     (if v_valid (validity f) then (True, hideError f)
      else (False, showError f (getValidationMessage validity f)))"

text \<open>\<open>validateForm\<close>: every required field is validated; one invalid field fails the form.\<close>

fun validateForm :: "(field \<Rightarrow> validity_state) \<Rightarrow> field list \<Rightarrow> bool \<times> field list" where
  "validateForm validity [] = (True, [])"
| "validateForm validity (f # fs) =
     (let (ok, f') = (if f_required f then validateField validity f else (True, f));
          (isValid, fs') = validateForm validity fs
      in (ok \<and> isValid, f' # fs'))"

definition showNotification :: "string \<Rightarrow> string \<Rightarrow> app \<Rightarrow> app" where
  "showNotification message type s =
     s\<lparr>notifications := notifications s @ [\<lparr>n_type = type, n_message = message\<rparr>]\<rparr>"

definition setSubmittingState :: "bool \<Rightarrow> app \<Rightarrow> app" where
  "setSubmittingState submitting s =
     s\<lparr>submitBtn :=
         \<lparr>btn_disabled = submitting,
          btn_text =
            (case btn_text (submitBtn s) of
               None \<Rightarrow> None
             | Some _ \<Rightarrow> Some (if submitting then ''Envoi en cours...'' else ''Envoyer le message'')),
          btn_loader =
            (case btn_loader (submitBtn s) of
               None \<Rightarrow> None
             | Some _ \<Rightarrow> Some (if submitting then ''block'' else ''none''))\<rparr>\<rparr>"

text \<open>The timer that hides the success message after five seconds is not modelled.\<close>

definition showSuccess :: "app \<Rightarrow> app" where
  "showSuccess s =
     s\<lparr>success_display := (case success_display s of None \<Rightarrow> None | Some _ \<Rightarrow> Some ''flex'')\<rparr>"

text \<open>\<open>form.reset()\<close> gives every control its default value.\<close>

definition form_reset :: "field list \<Rightarrow> field list" where
  "form_reset fs = map (\<lambda>f. f\<lparr>f_value := f_default f\<rparr>) fs"

definition clear_errors :: "field list \<Rightarrow> field list" where
  "clear_errors fs = map (\<lambda>f. f\<lparr>f_classes := classList_remove ''error'' (f_classes f)\<rparr>) fs"

text \<open>
  \<open>submitForm\<close>: a promise that a timer settles after 1500 milliseconds, resolved with
  \<open>{success: true}\<close> when the draw of \<open>Math.random()\<close> is above \<open>0.1\<close> and rejected with
  \<open>Error('Network error')\<close> otherwise. A settled promise is its delay and its outcome,
  \<open>Inl\<close> the message of the rejection.
\<close>

record response =
  success :: bool

definition submitForm :: "real \<Rightarrow> nat \<times> (string + response)" where
  "submitForm draw =
     (1500, if draw > 0.1 then Inr \<lparr>success = True\<rparr> else Inl ''Network error'')"

text \<open>
  \<open>handleSubmit\<close> up to its \<open>await\<close>: the result says whether a submission is now
  pending.
\<close>

definition handleSubmit_begin :: "(field \<Rightarrow> validity_state) \<Rightarrow> app \<Rightarrow> bool \<times> app" where
  "handleSubmit_begin validity s =
     (if formSubmitting s then (False, s)
      else
        (let (isValid, fs) = validateForm validity (form_fields s);
             s1 = s\<lparr>form_fields := fs\<rparr>
         in if \<not> isValid
            then (False,
                  showNotification ''Veuillez corriger les erreurs dans le formulaire.'' ''error'' s1)
            else (True, setSubmittingState True (s1\<lparr>formSubmitting := True\<rparr>))))"

text \<open>
  \<open>handleSubmit\<close> from the settling of the promise on: the rest of the \<open>try\<close> block or
  the \<open>catch\<close> block, then the \<open>finally\<close> block. The \<open>console.error\<close> of the \<open>catch\<close>
  block writes no state of the program.
\<close>

definition handleSubmit_settle :: "string + response \<Rightarrow> app \<Rightarrow> app" where
  "handleSubmit_settle outcome s =
     (let s1 =
        (case outcome of
           Inr _ \<Rightarrow>
             (let s2 = showSuccess s
              in s2\<lparr>form_fields := clear_errors (form_reset (form_fields s2))\<rparr>)
         | Inl _ \<Rightarrow>
             showNotification
               (''Une erreur est survenue. Veuillez r'' @ [CHR 0xE9] @ ''essayer.'') ''error'' s)
      in setSubmittingState False (s1\<lparr>formSubmitting := False\<rparr>))"

definition handleSubmit :: "(field \<Rightarrow> validity_state) \<Rightarrow> real \<Rightarrow> app \<Rightarrow> app" where
  "handleSubmit validity draw s =
     (case handleSubmit_begin validity s of
        (False, s') \<Rightarrow> s'
      | (True, s') \<Rightarrow> handleSubmit_settle (snd (submitForm draw)) s')"

section \<open>NewsletterManager\<close>

text \<open>
  \<^verbatim>\<open>/^[^\s@]+@[^\s@]+\.[^\s@]+$/.test(email)\<close>

  The whole string is a non-empty run of characters that are neither white space nor
  \<open>@\<close>, an \<open>@\<close>, and a run of such characters with a dot that is neither its first nor
  its last character. Characters are those below code 256, where the white space of
  \<open>\s\<close> is tab, line feed, vertical tab, form feed, carriage return, space and the
  no-break space.
\<close>

definition is_space :: "char \<Rightarrow> bool" where
  "is_space c =
     (c \<in> set [CHR 0x09, CHR 0x0A, CHR 0x0B, CHR 0x0C, CHR 0x0D, CHR 0x20, CHR 0xA0])"

definition plain_char :: "char \<Rightarrow> bool" where
  "plain_char c = (\<not> is_space c \<and> c \<noteq> CHR ''@'')"

definition validateEmail :: "string \<Rightarrow> bool" where
  "validateEmail email =
     (takeWhile plain_char email \<noteq> [] \<and>
      (case dropWhile plain_char email of
         [] \<Rightarrow> False
       | x # rest \<Rightarrow>
           x = CHR ''@'' \<and> list_all plain_char rest \<and> CHR ''.'' \<in> set (butlast (tl rest))))"

text \<open>
  The promise that \<open>handleSubmit\<close> awaits,
  \<^verbatim>\<open>new Promise(resolve => setTimeout(resolve, 1000))\<close>: no draw is made, and the timer
  resolves it.
\<close>

definition newsletter_send :: "nat \<times> (string + unit)" where
  "newsletter_send = (1000, Inr ())"

text \<open>
  \<open>NewsletterManager.showMessage\<close> appends the same notification element as
  \<open>showNotification\<close> does. The button's \<open>innerHTML\<close> is \<open><i class="fas ICON"></i>\<close>; the model keeps the
  \<open>ICON\<close>.
\<close>

definition newsletter_begin :: "app \<Rightarrow> bool \<times> app" where
  "newsletter_begin s =
     (if \<not> validateEmail (news_email s)
      then (False, showNotification ''Veuillez entrer un email valide'' ''error'' s)
      else (True, s\<lparr>news_btn := \<lparr>nb_disabled = True, nb_html = ''fa-spinner fa-spin''\<rparr>\<rparr>))"

definition newsletter_settle :: "string + unit \<Rightarrow> app \<Rightarrow> app" where
  "newsletter_settle outcome s =
     (let s1 =
        (case outcome of
           Inr _ \<Rightarrow>
             (showNotification ''Merci pour votre inscription !'' ''success'' s)
               \<lparr>news_email := news_email_default s\<rparr>
         | Inl _ \<Rightarrow> showNotification ''Une erreur est survenue'' ''error'' s)
      in s1\<lparr>news_btn := \<lparr>nb_disabled = False, nb_html = ''fa-paper-plane''\<rparr>\<rparr>)"

definition newsletter_handleSubmit :: "app \<Rightarrow> app" where
  "newsletter_handleSubmit s =
     (case newsletter_begin s of
        (False, s') \<Rightarrow> s'
      | (True, s') \<Rightarrow> newsletter_settle (snd newsletter_send) s')"

section \<open>ParticlesBackground\<close>

text \<open>
  \<open>Math.atan2(y, x)\<close> on finite numbers: the angle of the point \<open>(x, y)\<close> in
  \<open>(-\<pi>, \<pi>]\<close>, and \<open>0\<close> at the origin.
\<close>

definition atan2 :: "real \<Rightarrow> real \<Rightarrow> real" where
  "atan2 y x =
     (if 0 < x then arctan (y / x)
      else if x < 0 then (if 0 \<le> y then arctan (y / x) + pi else arctan (y / x) - pi)
      else if 0 < y then pi / 2
      else if y < 0 then - (pi / 2)
      else 0)"




text \<open>
  The body of the \<open>forEach\<close> of \<open>animate\<close> for one particle, without the drawing calls
  on the canvas context, which change no particle.
\<close>

definition particle_step :: "real \<Rightarrow> real \<Rightarrow> mouse \<Rightarrow> particle \<Rightarrow> particle" where
  "particle_step width height m p =
     (let x1 = p_x p + p_vx p;
          y1 = p_y p + p_vy p;
          vx1 = (if x1 < 0 \<or> x1 > width then p_vx p * (- 1) else p_vx p);
          vy1 = (if y1 < 0 \<or> y1 > height then p_vy p * (- 1) else p_vy p);
          dx = m_x m - x1;
          dy = m_y m - y1;
          dist = sqrt (dx * dx + dy * dy)
      in if dist < m_radius m then
           (let angle = atan2 dy dx;
                force = (m_radius m - dist) / m_radius m
            in \<lparr>p_x = x1 - cos angle * force * 2, p_y = y1 - sin angle * force * 2,
                p_vx = vx1, p_vy = vy1\<rparr>)
         else \<lparr>p_x = x1, p_y = y1, p_vx = vx1, p_vy = vy1\<rparr>)"

definition animate :: "app \<Rightarrow> app" where
  "animate s =
     s\<lparr>particles :=
         map (particle_step (canvas_width s) (canvas_height s) (cursor s)) (particles s)\<rparr>"

section \<open>The page as a transition system\<close>

text \<open>
  The events that the handlers above are bound to. A scroll event carries the viewport
  and the new layout; its listeners run in the order of their registration
  (\<open>NavigationManager\<close>, then \<open>AnimationManager\<close>), and the event stands for one that
  the throttles let through. A submission of the contact form is taken with the
  settling of its promise, 1500 milliseconds later, as one step.

  The handlers that are not events here (the project filter, lazy loading of images,
  the back-to-top button, tooltips, the custom cursor, counters, skill bars, parallax,
  the active navigation link) read and write neither \<open>localStorage\<close> nor \<open>STATE\<close>,
  and the only class \<open>visible\<close> they touch is that of the back-to-top button and of
  the tooltip elements they create.
\<close>

datatype event =
    ThemeSwitcherClick
  | ColorSchemeChange bool
  | MenuToggleClick
  | MenuClose
  | Scroll viewport "nat \<Rightarrow> real \<times> real"
  | ObserverEntries "(nat \<times> bool) list"
  | ContactInput nat string
  | ContactSubmit "field \<Rightarrow> validity_state" real
  | NewsletterInput string
  | NewsletterSubmit
  | Track analytics_event
  | MouseMove real real
  | Resize real real
  | Frame

fun step :: "event \<Rightarrow> app \<Rightarrow> app" where
  "step ThemeSwitcherClick s = toggleTheme s"
| "step (ColorSchemeChange matches) s = onColorSchemeChange matches s"
| "step MenuToggleClick s = toggleMenu s"
| "step MenuClose s = closeMenu s"
| "step (Scroll vp rect) s =
     (let s0 = s\<lparr>elements := relayout rect (elements s)\<rparr>;
          s1 = updateNavbar (pageYOffset vp) (updateProgressBar vp s0)
      in s1\<lparr>elements := animateOnScroll vp (elements s1)\<rparr>)"
| "step (ObserverEntries entries) s = s\<lparr>elements := observerCallback entries (elements s)\<rparr>"
| "step (ContactInput i v) s =
     (if i < length (form_fields s)
      then s\<lparr>form_fields := (form_fields s)[i := (form_fields s ! i)\<lparr>f_value := v\<rparr>]\<rparr>
      else s)"
| "step (ContactSubmit validity draw) s = handleSubmit validity draw s"
| "step (NewsletterInput v) s = s\<lparr>news_email := v\<rparr>"
| "step NewsletterSubmit s = newsletter_handleSubmit s"
| "step (Track ev) s = s\<lparr>events := logEvent ev (events s)\<rparr>"
| "step (MouseMove x y) s = s\<lparr>cursor := (cursor s)\<lparr>m_x := x, m_y := y\<rparr>\<rparr>"
| "step (Resize w h) s = s\<lparr>canvas_width := w, canvas_height := h\<rparr>"
| "step Frame s = animate s"

text \<open>
  Loading the page. The argument \<open>page\<close> is the document as parsed, with the
  \<open>localStorage\<close> of the origin; the script sets \<open>STATE\<close> and runs the constructors:
  \<open>ThemeManager.init\<close> applies the initial theme, \<open>NavigationManager.init\<close> updates the
  progress bar, \<open>initScrollAnimations\<close> makes its initial check,
  \<open>AnalyticsManager\<close> starts from no events and logs the page view, and
  \<open>ParticlesBackground\<close> puts the cursor at the origin with radius 100.
\<close>

definition boot :: "bool \<Rightarrow> viewport \<Rightarrow> analytics_event \<Rightarrow> app \<Rightarrow> app" where
  "boot prefers_dark vp page_view page =
     (let s0 = page\<lparr>theme := initial_theme (localStorage page) prefers_dark,
                    scrollPosition := 0, menuOpen := False, formSubmitting := False\<rparr>;
          s1 = setTheme (theme s0) s0;
          s2 = updateProgressBar vp s1;
          s3 = s2\<lparr>elements := animateOnScroll vp (elements s2)\<rparr>;
          s4 = s3\<lparr>events := logEvent page_view []\<rparr>
      in s4\<lparr>cursor := \<lparr>m_x = 0, m_y = 0, m_radius = 100\<rparr>\<rparr>)"

text \<open>
  The states the program can be in: the first load finds no \<open>theme\<close> key in
  \<open>localStorage\<close>; every event leads to a next state; and a later load of the page
  keeps nothing of the state before it but \<open>localStorage\<close>.
\<close>

inductive reachable :: "app \<Rightarrow> bool" where
  first_load: "localStorage page ''theme'' = None \<Longrightarrow> reachable (boot prefers_dark vp pv page)"
| after_event: "reachable s \<Longrightarrow> reachable (step e s)"
| reload: "reachable s \<Longrightarrow> localStorage page = localStorage s \<Longrightarrow>
     reachable (boot prefers_dark vp pv page)"

section \<open>Notions used in the statements\<close>

text \<open>The part of the state in which the theme lives.\<close>

definition theme_part :: "app \<Rightarrow> string \<times> (string \<rightharpoonup> string) \<times> string list" where
  "theme_part s = (theme s, localStorage s, body_classes s)"


text \<open>
  The words of the specification for a submission gated by a random outcome: of the
  draws that \<open>Math.random()\<close> can return, one makes the submission fail and one makes
  it succeed.
\<close>

definition random_gated :: "(real \<Rightarrow> string + 'a) \<Rightarrow> bool" where
  "random_gated submit =
     ((\<exists>draw. 0 \<le> draw \<and> draw < 1 \<and> isl (submit draw)) \<and>
      (\<exists>draw. 0 \<le> draw \<and> draw < 1 \<and> \<not> isl (submit draw)))"


text \<open>A run of events, in order.\<close>

fun run :: "event list \<Rightarrow> app \<Rightarrow> app" where
  "run [] s = s"
| "run (e # es) s = run es (step e s)"

subsection \<open>A sample page\<close>

text \<open>
  A small document on which the statements are instantiated: a stored language
  preference beside the theme, a contact form of two required fields that the visitor has
  filled in, a newsletter address, one element to reveal, one particle.
\<close>

definition sample_viewport :: viewport where
  "sample_viewport =
     \<lparr>pageYOffset = 250, body_scrollTop = 0, root_scrollTop = 250,
      root_scrollHeight = 1500, root_clientHeight = 500, innerHeight = 500\<rparr>"

definition sample_top :: viewport where
  "sample_top =
     \<lparr>pageYOffset = 0, body_scrollTop = 0, root_scrollTop = 0,
      root_scrollHeight = 500, root_clientHeight = 500, innerHeight = 500\<rparr>"

definition sample_element :: element where
  "sample_element =
     \<lparr>el_classes = [''card'', ''scroll-animate''], el_top = 900, el_bottom = 1100,
      el_animate = Some ''fadeIn'', el_observed = True\<rparr>"


definition sample_particle :: particle where
  "sample_particle = \<lparr>p_x = 40, p_y = 0, p_vx = 10, p_vy = 0\<rparr>"

definition sample_fields :: "field list" where
  "sample_fields =
     [\<lparr>f_id = ''name'', f_value = ''Ada'', f_default = [], f_required = True,
       f_type = ''text'', f_classes = [], f_error = Some \<lparr>err_text = [], err_display = ''none''\<rparr>\<rparr>,
      \<lparr>f_id = ''email'', f_value = ''ada@example.org'', f_default = [], f_required = True,
       f_type = ''email'', f_classes = [], f_error = None\<rparr>]"

definition sample_page :: app where
  "sample_page =
     \<lparr>localStorage = [''lang'' \<mapsto> ''fr''], theme = [], scrollPosition = 0, menuOpen = False,
      formSubmitting = False, body_classes = [], body_overflow = [],
      meta_theme_color = Some ''#ffffff'', navbar_classes = [''navbar''],
      navMenu_classes = [''nav-menu''], aria_expanded = ''false'',
      progressBar = Some \<lparr>pb_width = Num 0, pb_valuenow = Num 0\<rparr>,
      elements = [sample_element], form_fields = sample_fields,
      submitBtn = \<lparr>btn_disabled = False, btn_text = Some ''Envoyer le message'', btn_loader = None\<rparr>,
      success_display = Some ''none'', notifications = [],
      news_email = ''ada@example.org'', news_email_default = [],
      news_btn = \<lparr>nb_disabled = False, nb_html = ''fa-paper-plane''\<rparr>,
      events = [], particles = [sample_particle],
      cursor = \<lparr>m_x = 0, m_y = 0, m_radius = 100\<rparr>, canvas_width = 800, canvas_height = 600\<rparr>"


definition all_valid :: "field \<Rightarrow> validity_state" where
  "all_valid f = \<lparr>v_valid = True, v_valueMissing = False, v_typeMismatch = False\<rparr>"

section \<open>Properties\<close>

subsection \<open>formatPhone\<close>

lemma digits_at_run: "digits_at (drop i s) \<Longrightarrow> has_digit_run s"
proof -
  assume d: "digits_at (drop i s)"
  then have "10 \<le> length s - i"
    by (simp add: digits_at_def)
  then have len: "i + 10 \<le> length s"
    by arith
  have "\<forall>j<10. is_digit (s ! (i + j))"
  proof (intro allI impI)
    fix j :: nat
    assume j: "j < 10"
    from d have "list_all is_digit (take 10 (drop i s))"
      by (simp add: digits_at_def)
    then have "is_digit (take 10 (drop i s) ! j)"
      using j len by (simp add: list_all_length)
    then show "is_digit (s ! (i + j))"
      using j len by simp
  qed
  with len show ?thesis
    unfolding has_digit_run_def by blast
qed

lemma formatPhone_no_match:
  "(\<And>i. \<not> digits_at (drop i s)) \<Longrightarrow> formatPhone s = s"
proof (induction s)
  case Nil
  show ?case by simp
next
  case (Cons c cs)
  have here: "\<not> digits_at (c # cs)"
    using Cons.prems [of 0] by simp
  have later: "\<And>i. \<not> digits_at (drop i cs)"
    using Cons.prems [of "Suc _"] by simp
  show ?case
    using here Cons.IH [OF later] by simp
qed

text \<open>
  Claim C10. For an input of exactly ten ASCII digits, \<open>formatPhone\<close> returns the five
  consecutive two-digit groups joined by single spaces; for an input with no run of ten
  consecutive digits, \<open>formatPhone\<close> returns the input unchanged.
\<close>

theorem formatPhone_spec:
  "(list_all is_digit [a, b, c, d, e, f, g, h, i, j] \<longrightarrow>
      formatPhone [a, b, c, d, e, f, g, h, i, j] =
        [a, b, CHR '' '', c, d, CHR '' '', e, f, CHR '' '', g, h, CHR '' '', i, j]) \<and>
   (\<not> has_digit_run s \<longrightarrow> formatPhone s = s)"
proof (intro conjI impI)
  assume "list_all is_digit [a, b, c, d, e, f, g, h, i, j]"
  then show "formatPhone [a, b, c, d, e, f, g, h, i, j] =
      [a, b, CHR '' '', c, d, CHR '' '', e, f, CHR '' '', g, h, CHR '' '', i, j]"
    by (simp add: digits_at_def phone_groups_def)
next
  assume "\<not> has_digit_run s"
  then have "\<And>i. \<not> digits_at (drop i s)"
    using digits_at_run by blast
  then show "formatPhone s = s"
    by (rule formatPhone_no_match)
qed

theorem formatPhone_spec_witness:
  "formatPhone ''0612345678'' = ''06 12 34 56 78'' \<and>
   formatPhone ''tel 06-12'' = ''tel 06-12''"
proof -
  have digits: "list_all is_digit ''0612345678''"
    by (simp add: is_digit_def)
  have "\<not> has_digit_run ''tel 06-12''"
    by (simp add: has_digit_run_def)
  then show ?thesis
    using digits
      formatPhone_spec [of "CHR ''0''" "CHR ''6''" "CHR ''1''" "CHR ''2''" "CHR ''3''"
        "CHR ''4''" "CHR ''5''" "CHR ''6''" "CHR ''7''" "CHR ''8''" "''tel 06-12''"]
    by blast
qed

subsection \<open>logEvent\<close>

lemma logEvent_drop: "logEvent ev evs = drop (length evs + 1 - 100) (evs @ [ev])"
  by (simp add: logEvent_def slice_last_def Let_def)

lemma logEvents_suffix:
  "logEvents es evs = drop (length (evs @ es) - 100) (evs @ es)" if "length evs \<le> 100"
  using that
proof (induction es arbitrary: evs)
  case Nil
  then show ?case by simp
next
  case (Cons e es)
  have short: "length (logEvent e evs) \<le> 100"
    by (simp add: logEvent_drop)
  have "logEvents (e # es) evs = logEvents es (logEvent e evs)"
    by simp
  also have "\<dots> = drop (length (logEvent e evs @ es) - 100) (logEvent e evs @ es)"
    by (rule Cons.IH [OF short])
  also have "\<dots> = drop (length (evs @ e # es) - 100) (evs @ e # es)"
  proof (cases "length evs < 100")
    case True
    then show ?thesis by (simp add: logEvent_drop)
  next
    case False
    with Cons.prems have "length evs = 100" by simp
    then show ?thesis by (simp add: logEvent_drop)
  qed
  finally show ?case .
qed

lemma logEvent_last: "last (logEvent ev evs) = ev"
proof -
  have "length evs + 1 - 100 < length (evs @ [ev])"
    by simp
  then have "last (drop (length evs + 1 - 100) (evs @ [ev])) = last (evs @ [ev])"
    by (rule last_drop)
  then show ?thesis
    by (simp add: logEvent_drop)
qed

text \<open>
  Claim C9. After every \<open>logEvent\<close> call the event list holds at most 100 events, and the
  events retained are the most recently logged ones: the new event is the last of the
  list; the list is what remains of the old list followed by the new event when all but
  its last 100 entries are dropped from its front; and a run of calls from the empty
  list of the constructor leaves the events logged without all but the last 100 of
  them, in the order of logging.
\<close>

theorem logEvent_keeps_last_100:
  "length (logEvent ev evs) \<le> 100 \<and>
   last (logEvent ev evs) = ev \<and>
   logEvent ev evs = drop (length (evs @ [ev]) - 100) (evs @ [ev]) \<and>
   logEvents es [] = drop (length es - 100) es \<and>
   length (logEvents es []) = min (length es) 100"
  using logEvents_suffix [of "[]" es] logEvent_last [of ev evs]
  by (auto simp: logEvent_drop)

subsection \<open>Class lists\<close>

lemma classList_add_mem: "x \<in> set (classList_add c cs) \<longleftrightarrow> x = c \<or> x \<in> set cs"
  by (auto simp: classList_add_def)

lemma classList_remove_mem: "x \<in> set (classList_remove c cs) \<longleftrightarrow> x \<noteq> c \<and> x \<in> set cs"
  by (auto simp: classList_remove_def)

lemma classList_toggle_self: "c \<in> set (classList_toggle c force cs) \<longleftrightarrow> force"
  by (simp add: classList_toggle_def classList_add_mem classList_remove_mem)

subsection \<open>The navigation bar\<close>

lemma updateNavbar_hidden:
  "classList_contains ''hidden'' (navbar_classes (updateNavbar cur s)) \<longleftrightarrow>
     cur > 200 \<and> cur > scrollPosition s"
  by (auto simp: updateNavbar_def classList_contains_def classList_add_mem classList_remove_mem)

lemma updateNavbar_scrolled:
  "classList_contains ''scrolled'' (navbar_classes (updateNavbar cur s)) \<longleftrightarrow> cur > 100"
  by (auto simp: updateNavbar_def classList_contains_def classList_add_mem classList_remove_mem)

lemma step_scroll_navbar:
  "navbar_classes (step (Scroll vp rect) s) = navbar_classes (updateNavbar (pageYOffset vp) s)"
  by (simp add: Let_def updateNavbar_def updateProgressBar_def split: option.splits)

text \<open>
  Claim C7. After every \<open>updateNavbar\<close> step the navbar carries the class \<open>hidden\<close> if and
  only if the scroll offset exceeds 200 and exceeds the scroll position recorded before;
  in particular it is never hidden when the offset is at most 100; and it carries the
  class \<open>scrolled\<close> exactly when the offset exceeds 100. The step records the offset, and
  the scroll event leaves the navbar with the classes that \<open>updateNavbar\<close> gives it.
\<close>

theorem updateNavbar_spec:
  "(classList_contains ''hidden'' (navbar_classes (updateNavbar cur s)) \<longleftrightarrow>
      cur > 200 \<and> cur > scrollPosition s) \<and>
   (cur \<le> 100 \<longrightarrow> \<not> classList_contains ''hidden'' (navbar_classes (updateNavbar cur s))) \<and>
   (classList_contains ''scrolled'' (navbar_classes (updateNavbar cur s)) \<longleftrightarrow> cur > 100) \<and>
   scrollPosition (updateNavbar cur s) = cur \<and>
   navbar_classes (step (Scroll vp rect) s) = navbar_classes (updateNavbar (pageYOffset vp) s)"
  using updateNavbar_hidden [of cur s] updateNavbar_scrolled [of cur s]
    step_scroll_navbar [of vp rect s]
  by (auto simp: updateNavbar_def)

theorem updateNavbar_spec_witness:
  "(80::real) \<le> 100 \<and>
   \<not> classList_contains ''hidden'' (navbar_classes (updateNavbar 80 (updateNavbar 250 sample_page))) \<and>
   classList_contains ''hidden'' (navbar_classes (updateNavbar 250 sample_page))"
  using updateNavbar_spec [of 80 "updateNavbar 250 sample_page"]
    updateNavbar_spec [of 250 sample_page]
  by (simp add: sample_page_def)

subsection \<open>The progress bar\<close>

lemma scrolled_in_range:
  assumes "0 < scrollable_height vp" "0 \<le> winScroll vp" "winScroll vp \<le> scrollable_height vp"
  shows "scrolled vp = Num (winScroll vp / scrollable_height vp * 100) \<and>
    0 \<le> winScroll vp / scrollable_height vp * 100 \<and>
    winScroll vp / scrollable_height vp * 100 \<le> 100"
proof (intro conjI)
  show "scrolled vp = Num (winScroll vp / scrollable_height vp * 100)"
    using assms by (simp add: scrolled_def js_div_def)
  show "0 \<le> winScroll vp / scrollable_height vp * 100"
    using assms by simp
  have "winScroll vp / scrollable_height vp \<le> 1"
    using assms by (simp add: divide_le_eq)
  then have "winScroll vp / scrollable_height vp * 100 \<le> 1 * 100"
    by (rule mult_right_mono) simp
  then show "winScroll vp / scrollable_height vp * 100 \<le> 100"
    by (simp del: times_divide_eq_left)
qed

lemma scrolled_zero_height: "scrollable_height vp = 0 \<Longrightarrow> \<not> is_finite (scrolled vp)"
  by (simp add: scrolled_def js_div_def)

text \<open>
  Claim C8. When the scrollable height (\<open>scrollHeight - clientHeight\<close>) is positive and
  the scroll offset lies between 0 and it, the percentage that \<open>updateProgressBar\<close>
  computes is the finite number \<open>scrollTop / height * 100\<close> and lies in \<open>[0, 100]\<close>;
  when the scrollable height is zero the percentage is not a finite number. It is the
  number that \<open>updateProgressBar\<close> writes to the bar.
\<close>

theorem updateProgressBar_percentage:
  "(0 < scrollable_height vp \<and> 0 \<le> winScroll vp \<and> winScroll vp \<le> scrollable_height vp \<longrightarrow>
      scrolled vp = Num (winScroll vp / scrollable_height vp * 100) \<and>
      0 \<le> winScroll vp / scrollable_height vp * 100 \<and>
      winScroll vp / scrollable_height vp * 100 \<le> 100) \<and>
   (scrollable_height vp = 0 \<longrightarrow> \<not> is_finite (scrolled vp)) \<and>
   (progressBar s = Some bar \<longrightarrow>
      progressBar (updateProgressBar vp s) =
        Some (bar\<lparr>pb_width := scrolled vp, pb_valuenow := js_round (scrolled vp)\<rparr>))"
  using scrolled_in_range [of vp] scrolled_zero_height [of vp]
  by (simp add: updateProgressBar_def)

theorem updateProgressBar_percentage_witness:
  "scrolled sample_viewport = Num 25 \<and> \<not> is_finite (scrolled sample_top) \<and>
   progressBar (updateProgressBar sample_viewport sample_page) =
     Some \<lparr>pb_width = Num 25, pb_valuenow = Num 25\<rparr>"
proof -
  have height: "scrollable_height sample_viewport = 1000" "winScroll sample_viewport = 250"
    by (simp_all add: scrollable_height_def winScroll_def js_or_def sample_viewport_def)
  have zero: "scrollable_height sample_top = 0"
    by (simp add: scrollable_height_def sample_top_def)
  have bar: "progressBar sample_page = Some \<lparr>pb_width = Num 0, pb_valuenow = Num 0\<rparr>"
    by (simp add: sample_page_def)
  have pct: "scrolled sample_viewport = Num 25"
    using updateProgressBar_percentage [of sample_viewport sample_page] height by simp
  have round: "js_round (Num 25) = Num 25"
    by simp
  show ?thesis
    using updateProgressBar_percentage [of sample_top sample_page] zero pct round
      updateProgressBar_percentage
        [of sample_viewport sample_page "\<lparr>pb_width = Num 0, pb_valuenow = Num 0\<rparr>"] bar
    by simp
qed

subsection \<open>The theme and \<open>localStorage\<close>\<close>


lemma setTheme_effect:
  "theme (setTheme t s) = t"
  "localStorage (setTheme t s) = (localStorage s)(''theme'' \<mapsto> t)"
  "classList_contains ''dark-mode'' (body_classes (setTheme t s)) \<longleftrightarrow> t = ''dark''"
  by (simp_all add: setTheme_def classList_contains_def classList_toggle_self)




lemma showNotification_theme_part [simp]: "theme_part (showNotification m t s) = theme_part s"
  by (simp add: theme_part_def showNotification_def)

lemma setSubmittingState_theme_part [simp]: "theme_part (setSubmittingState b s) = theme_part s"
  by (simp add: theme_part_def setSubmittingState_def)

lemma showSuccess_theme_part [simp]: "theme_part (showSuccess s) = theme_part s"
  by (simp add: theme_part_def showSuccess_def)

lemma theme_part_updates [simp]:
  "theme_part (s\<lparr>form_fields := fs\<rparr>) = theme_part s"
  "theme_part (s\<lparr>formSubmitting := b\<rparr>) = theme_part s"
  "theme_part (s\<lparr>news_btn := nb\<rparr>) = theme_part s"
  "theme_part (s\<lparr>news_email := v\<rparr>) = theme_part s"
  by (simp_all add: theme_part_def)








lemma boot_theme_part:
  "theme_part (boot pd vp pv page) =
     theme_part (setTheme (initial_theme (localStorage page) pd) page)"
  by (simp add: boot_def theme_part_def Let_def setTheme_def updateProgressBar_def
      split: option.splits)



text \<open>
  The initial theme is read from \<open>localStorage\<close> as it is found; the states of
  \<open>reachable\<close> start from a first load that finds no \<open>theme\<close> key, so that every stored
  theme is one the program wrote.
\<close>

lemma boot_adopts_stored_theme:
  "localStorage page ''theme'' = Some t \<Longrightarrow> t \<noteq> [] \<Longrightarrow> theme (boot pd vp pv page) = t"
  using boot_theme_part [of pd vp pv page]
  by (simp add: theme_part_def setTheme_effect initial_theme_def item_truthy_def)









subsection \<open>The two form submissions\<close>

lemma validateField_value:
  "f_value (snd (validateField v f)) = f_value f \<and> f_default (snd (validateField v f)) = f_default f"
  by (simp add: validateField_def showError_def hideError_def)

lemma validateForm_values:
  "map f_value (snd (validateForm v fs)) = map f_value fs \<and>
   map f_default (snd (validateForm v fs)) = map f_default fs"
proof (induction fs)
  case Nil
  show ?case by simp
next
  case (Cons f fs)
  then show ?case
    using validateField_value [of v f]
    by (cases "validateForm v fs"; cases "validateField v f") (simp add: Let_def)
qed

lemma handleSubmit_begin_valid:
  assumes "\<not> formSubmitting s" "fst (validateForm v (form_fields s))"
  shows "handleSubmit_begin v s =
    (True, setSubmittingState True
       (s\<lparr>form_fields := snd (validateForm v (form_fields s)), formSubmitting := True\<rparr>))"
  using assms by (cases "validateForm v (form_fields s)") (simp add: handleSubmit_begin_def Let_def)

lemma begin_fields:
  assumes "\<not> formSubmitting s" "fst (validateForm v (form_fields s))"
  shows "form_fields (snd (handleSubmit_begin v s)) = snd (validateForm v (form_fields s))"
    and "notifications (snd (handleSubmit_begin v s)) = notifications s"
    and "fst (handleSubmit_begin v s)"
  using assms by (simp_all add: handleSubmit_begin_valid setSubmittingState_def)

lemma settle_rejected:
  "notifications (handleSubmit_settle (Inl m) s) =
     notifications s @
       [\<lparr>n_type = ''error'',
         n_message = ''Une erreur est survenue. Veuillez r'' @ [CHR 0xE9] @ ''essayer.''\<rparr>]"
  "form_fields (handleSubmit_settle (Inl m) s) = form_fields s"
  "\<not> formSubmitting (handleSubmit_settle (Inl m) s)"
  by (simp_all add: handleSubmit_settle_def showNotification_def setSubmittingState_def)

lemma settle_resolved:
  "notifications (handleSubmit_settle (Inr r) s) = notifications s"
  "form_fields (handleSubmit_settle (Inr r) s) = clear_errors (form_reset (form_fields s))"
  "\<not> formSubmitting (handleSubmit_settle (Inr r) s)"
  by (simp_all add: handleSubmit_settle_def showSuccess_def setSubmittingState_def Let_def)

lemma reset_values: "map f_value (clear_errors (form_reset fs)) = map f_default fs"
  by (simp add: clear_errors_def form_reset_def comp_def)

lemma handleSubmit_valid:
  assumes "\<not> formSubmitting s" "fst (validateForm v (form_fields s))"
  shows "handleSubmit v draw s =
    handleSubmit_settle (snd (submitForm draw)) (snd (handleSubmit_begin v s))"
  using assms by (simp add: handleSubmit_def handleSubmit_begin_valid)

text \<open>
  Claim C1. For a submission of the contact form that passes validation (none is
  pending), the simulated submit settles after its delay of 1500 milliseconds, resolved
  exactly when the random draw exceeds \<open>0.1\<close> and rejected with \<open>Network error\<close>
  otherwise; of the draws in \<open>[0, 1)\<close> the resolving ones are the interval \<open>(0.1, 1)\<close>,
  nine tenths of the whole. On rejection an error notification is shown and the values of the form's
  fields are the ones before the submission; on success no notification is added and
  the fields are reset to their defaults.
\<close>

theorem contact_submit_outcome:
  assumes "\<not> formSubmitting s" and "fst (validateForm validity (form_fields s))"
  shows
    "submitForm draw =
       (1500, if draw > 0.1 then Inr \<lparr>success = True\<rparr> else Inl ''Network error'') \<and>
     (\<not> isl (snd (submitForm draw)) \<longleftrightarrow> draw > 0.1) \<and>
     {d. 0 \<le> d \<and> d < 1 \<and> \<not> isl (snd (submitForm d))} = {0.1 <..< 1} \<and>
     handleSubmit validity draw s =
       handleSubmit_settle (snd (submitForm draw)) (snd (handleSubmit_begin validity s)) \<and>
     (\<not> draw > 0.1 \<longrightarrow>
        notifications (handleSubmit validity draw s) =
          notifications s @
            [\<lparr>n_type = ''error'',
              n_message = ''Une erreur est survenue. Veuillez r'' @ [CHR 0xE9] @ ''essayer.''\<rparr>] \<and>
        map f_value (form_fields (handleSubmit validity draw s)) = map f_value (form_fields s)) \<and>
     (draw > 0.1 \<longrightarrow>
        notifications (handleSubmit validity draw s) = notifications s \<and>
        map f_value (form_fields (handleSubmit validity draw s)) = map f_default (form_fields s))"
proof -
  let ?b = "snd (handleSubmit_begin validity s)"
  have run: "handleSubmit validity draw s = handleSubmit_settle (snd (submitForm draw)) ?b"
    using assms by (rule handleSubmit_valid)
  have flds: "form_fields ?b = snd (validateForm validity (form_fields s))"
    and nots: "notifications ?b = notifications s"
    using assms by (simp_all add: begin_fields)
  have share: "{d. 0 \<le> d \<and> d < 1 \<and> \<not> isl (snd (submitForm d))} = {0.1 <..< 1}"
    by (auto simp: submitForm_def)
  show ?thesis
  proof (cases "draw > 0.1")
    case True
    then have "snd (submitForm draw) = Inr \<lparr>success = True\<rparr>"
      by (simp add: submitForm_def)
    with True run flds nots share show ?thesis
      by (simp add: settle_resolved reset_values validateForm_values submitForm_def)
  next
    case False
    then have "snd (submitForm draw) = Inl ''Network error''"
      by (simp add: submitForm_def)
    with False run flds nots share show ?thesis
      by (simp add: settle_rejected validateForm_values submitForm_def)
  qed
qed

lemma sample_valid: "fst (validateForm all_valid (form_fields sample_page))"
  by (simp add: sample_page_def sample_fields_def all_valid_def validateField_def Let_def)

theorem contact_submit_outcome_witness:
  "\<not> formSubmitting sample_page \<and> fst (validateForm all_valid (form_fields sample_page)) \<and>
   snd (submitForm (1 / 20)) = Inl ''Network error'' \<and>
   map n_type (notifications (handleSubmit all_valid (1 / 20) sample_page)) = [''error''] \<and>
   map f_value (form_fields (handleSubmit all_valid (1 / 20) sample_page)) =
     [''Ada'', ''ada@example.org''] \<and>
   map f_value (form_fields (handleSubmit all_valid (1 / 2) sample_page)) = [[], []]"
proof -
  have idle: "\<not> formSubmitting sample_page"
    by (simp add: sample_page_def)
  have vals: "map f_value (form_fields sample_page) = [''Ada'', ''ada@example.org'']"
    "map f_default (form_fields sample_page) = [[], []]"
    "notifications sample_page = []"
    by (simp_all add: sample_page_def sample_fields_def)
  have low: "\<not> (1 / 20 :: real) > 0.1" and high: "(1 / 2 :: real) > 0.1"
    by simp_all
  have rejected: "submitForm (1 / 20) = (1500, Inl ''Network error'')"
    using contact_submit_outcome [OF idle sample_valid, of "1 / 20"] low by simp
  have shown: "notifications (handleSubmit all_valid (1 / 20) sample_page) =
      notifications sample_page @
        [\<lparr>n_type = ''error'',
          n_message = ''Une erreur est survenue. Veuillez r'' @ [CHR 0xE9] @ ''essayer.''\<rparr>]"
    using contact_submit_outcome [OF idle sample_valid, of "1 / 20"] low by blast
  have kept: "map f_value (form_fields (handleSubmit all_valid (1 / 20) sample_page)) =
      map f_value (form_fields sample_page)"
    using contact_submit_outcome [OF idle sample_valid, of "1 / 20"] low by blast
  have reset: "map f_value (form_fields (handleSubmit all_valid (1 / 2) sample_page)) =
      map f_default (form_fields sample_page)"
    using contact_submit_outcome [OF idle sample_valid, of "1 / 2"] high by blast
  show ?thesis
    using idle sample_valid by (simp add: rejected shown kept reset vals)
qed

lemma validateEmail_sample: "validateEmail ''ada@example.org''"
  by (simp add: validateEmail_def plain_char_def is_space_def)

lemma validateEmail_examples:
  "\<not> validateEmail ''ada@example''" "\<not> validateEmail ''a da@example.org''" "\<not> validateEmail ''@example.org''"
  "\<not> validateEmail ''ada@.org''" "\<not> validateEmail ''ada@example.''" "validateEmail ''a@b.c.d''" "\<not> validateEmail ''a@b@c.d''"
  by (simp_all add: validateEmail_def plain_char_def is_space_def)

text \<open>
  Claim C2, as stated, fails for the newsletter form: its promise is settled by the timer
  alone, so no draw makes its submission fail.
\<close>

theorem newsletter_not_gated: "\<not> random_gated (\<lambda>draw. snd newsletter_send)"
  by (simp add: random_gated_def newsletter_send_def)

lemma contact_gated: "random_gated (\<lambda>draw. snd (submitForm draw))"
proof -
  have "(0::real) \<le> 0 \<and> (0::real) < 1 \<and> isl (snd (submitForm 0))"
    by (simp add: submitForm_def)
  moreover have "(0::real) \<le> 1 / 2 \<and> (1 / 2 :: real) < 1 \<and> \<not> isl (snd (submitForm (1 / 2)))"
    by (simp add: submitForm_def)
  ultimately show ?thesis
    unfolding random_gated_def by blast
qed

text \<open>
  Claim C2, amended. The contact submission is gated by a random draw: there is a draw
  in \<open>[0, 1)\<close> under which it fails and one under which it succeeds. The newsletter
  submission makes no draw: its promise resolves after 1000 milliseconds, and the handler
  shows the success notification and resets the form whenever the address passes
  \<open>validateEmail\<close>, and shows the validation error and keeps the address otherwise.
\<close>

theorem form_gates:
  "random_gated (\<lambda>draw. snd (submitForm draw)) \<and>
   newsletter_send = (1000, Inr ()) \<and>
   (validateEmail (news_email s) \<longrightarrow>
      notifications (newsletter_handleSubmit s) =
        notifications s @ [\<lparr>n_type = ''success'', n_message = ''Merci pour votre inscription !''\<rparr>] \<and>
      news_email (newsletter_handleSubmit s) = news_email_default s) \<and>
   (\<not> validateEmail (news_email s) \<longrightarrow>
      notifications (newsletter_handleSubmit s) =
        notifications s @ [\<lparr>n_type = ''error'', n_message = ''Veuillez entrer un email valide''\<rparr>] \<and>
      news_email (newsletter_handleSubmit s) = news_email s)"
  using contact_gated
  by (simp add: newsletter_handleSubmit_def newsletter_begin_def newsletter_settle_def
      newsletter_send_def showNotification_def Let_def)

theorem form_gates_witness:
  "validateEmail (news_email sample_page) \<and>
   map n_type (notifications (newsletter_handleSubmit sample_page)) = [''success''] \<and>
   news_email (newsletter_handleSubmit sample_page) = [] \<and>
   \<not> validateEmail (news_email (sample_page\<lparr>news_email := ''ada''\<rparr>)) \<and>
   map n_type (notifications (newsletter_handleSubmit (sample_page\<lparr>news_email := ''ada''\<rparr>))) = [''error'']"
proof -
  have ok: "validateEmail (news_email sample_page)"
    using validateEmail_sample by (simp add: sample_page_def)
  have bad: "\<not> validateEmail (news_email (sample_page\<lparr>news_email := ''ada''\<rparr>))"
    by (simp add: validateEmail_def plain_char_def is_space_def)
  have init: "notifications sample_page = []" "news_email_default sample_page = []"
    by (simp_all add: sample_page_def)
  show ?thesis
    using ok bad init form_gates [of sample_page]
      form_gates [of "sample_page\<lparr>news_email := ''ada''\<rparr>"]
    by simp
qed

subsection \<open>Scroll animations\<close>


lemma animateOnScroll_length [simp]: "length (animateOnScroll vp els) = length els"
  by (simp add: animateOnScroll_def)


lemma relayout_length [simp]: "length (relayout rect els) = length els"
  by (simp add: relayout_def)



lemma observerCallback_length [simp]: "length (observerCallback entries els) = length els"
  by (induction entries els rule: observerCallback.induct) simp_all




lemma elements_showNotification [simp]: "elements (showNotification m t s) = elements s"
  by (simp add: showNotification_def)

lemma elements_setSubmittingState [simp]: "elements (setSubmittingState b s) = elements s"
  by (simp add: setSubmittingState_def)

lemma elements_showSuccess [simp]: "elements (showSuccess s) = elements s"
  by (simp add: showSuccess_def)

lemma elements_setTheme [simp]: "elements (setTheme t s) = elements s"
  by (simp add: setTheme_def)











subsection \<open>The particle loop\<close>










text \<open>
  The constructor sets the mouse radius to 100 and no handler changes it, so it is 100
  in every state the program reaches.
\<close>

lemma cursor_handleSubmit_begin: "cursor (snd (handleSubmit_begin v s)) = cursor s"
  by (cases "validateForm v (form_fields s)")
    (simp add: handleSubmit_begin_def Let_def showNotification_def setSubmittingState_def)

lemma cursor_handleSubmit_settle: "cursor (handleSubmit_settle r s) = cursor s"
  by (cases r)
    (simp_all add: handleSubmit_settle_def Let_def showNotification_def setSubmittingState_def
      showSuccess_def)

lemma cursor_handleSubmit: "cursor (handleSubmit v d s) = cursor s"
proof (cases "handleSubmit_begin v s")
  case (Pair pending s')
  then have "cursor s' = cursor s"
    using cursor_handleSubmit_begin [of v s] by simp
  with Pair show ?thesis
    by (cases pending) (simp_all add: handleSubmit_def cursor_handleSubmit_settle)
qed

lemma step_radius: "m_radius (cursor (step e s)) = m_radius (cursor s)"
proof (cases e)
  case (Scroll vp rect)
  then show ?thesis
    by (simp add: Let_def updateNavbar_def updateProgressBar_def split: option.splits)
next
  case (ContactSubmit v d)
  then show ?thesis by (simp add: cursor_handleSubmit)
next
  case NewsletterSubmit
  then show ?thesis
    by (simp add: newsletter_handleSubmit_def newsletter_begin_def newsletter_settle_def
        newsletter_send_def showNotification_def Let_def)
next
  case ThemeSwitcherClick
  then show ?thesis by (simp add: toggleTheme_def Let_def setTheme_def)
next
  case (ColorSchemeChange m)
  then show ?thesis by (simp add: onColorSchemeChange_def setTheme_def)
next
  case MenuToggleClick
  then show ?thesis by (simp add: toggleMenu_def Let_def)
next
  case MenuClose
  then show ?thesis by (simp add: closeMenu_def)
next
  case Frame
  then show ?thesis by (simp add: animate_def)
qed simp_all

lemma boot_radius: "m_radius (cursor (boot pd vp pv page)) = 100"
  by (simp add: boot_def Let_def)

lemma reachable_radius: "reachable s \<Longrightarrow> m_radius (cursor s) = 100"
  by (induction rule: reachable.induct) (simp_all add: boot_radius step_radius)



end
